theory Spec2Isabelle
  imports Main "HOL-Library.Word"
begin

unbundle bit_operations_syntax

section \<open>Errors and object kinds\<close>

text \<open>
  Modelled from the spec: the enum \<open>RunTimeError::ErrorCode\<close> of run_time_error.h, which is
  not among the source files. The spec (section 4.7) gives its closed set of codes.
\<close>

datatype ErrorCode =
    INCOMPATIBLE_TYPE | INVALID_COMMAND | FUNC_PARAMS | SYMBOL_NOT_FOUND | OUT_OF_RANGE
  | KEY_NOT_FOUND | INVALID_OPCODE | IMPORT_ERROR | ASSERT

text \<open>
  A thrown \<open>RunTimeError(code, boost::format(fmt) % a1 % ...)\<close> is the value
  \<open>RunTimeError code fmt [a1, ...]\<close>; a function that can throw returns
  \<open>RunTimeError + 'a\<close>, with \<open>Inl\<close> for the exception.
\<close>

datatype RunTimeError = RunTimeError ErrorCode string "string list"

fun err_code :: "RunTimeError \<Rightarrow> ErrorCode" where
  "err_code (RunTimeError c fmt args) = c"

text \<open>
  Modelled from the spec: the enum \<open>Object::ObjectType\<close> of abstract-obj.h, which is not
  among the source files. The spec (section 3.1) gives the closed set of kind tags.
\<close>

datatype ObjectType =
    NULL | BOOL | INT' | REAL | STRING | ARRAY | TUPLE | MAP | FUNC | TYPE' | DECL_TYPE
  | DECL_IFACE | DECL_OBJ | MODULE | CMD | ARRAY_ITER | CMD_ITER | WRAPPER_FUNC

section \<open>Abstract method signatures (decl-class-object.cc)\<close>

text \<open>
  \<open>AbstractMethod\<close> holds the three fields its copy constructor copies. The counts are
  unsigned sizes that the code only compares for equality, hence \<open>nat\<close>.
\<close>

record AbstractMethod =
  num_params :: nat
  num_default_params :: nat
  variadic :: bool

text \<open>The three accessors of \<open>FuncObject\<close> that the signature comparison reads.\<close>

record FuncObject =
  NumParams :: nat
  NumDefaultParams :: nat
  CVariadic :: bool

text \<open>\<open>AbstractMethod::operator==(const AbstractMethod&)\<close>, receiver first.\<close>

definition AbstractMethod_eq :: "AbstractMethod \<Rightarrow> AbstractMethod \<Rightarrow> bool" where
  "AbstractMethod_eq this func =
     (if variadic this then
        (num_params func = num_params this) \<and>
        (num_default_params func = num_default_params this) \<and>
        variadic func = variadic this
      else
        (num_params func = num_params this) \<and> (variadic func = variadic this))"

text \<open>\<open>AbstractMethod::operator!=(const AbstractMethod&)\<close>.\<close>

definition AbstractMethod_ne :: "AbstractMethod \<Rightarrow> AbstractMethod \<Rightarrow> bool" where
  "AbstractMethod_ne this func = (\<not> AbstractMethod_eq this func)"



section \<open>Objects, symbol tables and the store\<close>

text \<open>
  An \<open>ObjectPtr\<close> is a handle into the store, the list of all objects alive; the store only
  grows, an object nobody holds any more stays where it is. Two handles are the same
  object exactly when they are equal.
\<close>

type_synonym ObjectPtr = nat

text \<open>
  Modelled from the spec: symbol-table.h is not among the source files. Per section 3.3 a
  table maps names to entries \<open>{object, global?}\<close> and carries one of three type tags, and
  a symbol-table stack is a stack of tables; here its top is the head of the list and the
  module's root table the last element.
\<close>

record SymbolAttr =
  object :: ObjectPtr
  global :: bool

datatype TableType = FUNC_TABLE | CLASS_TABLE | BLOCK_TABLE

record SymbolTable =
  table_type :: TableType
  entries :: "(string \<times> SymbolAttr) list"

type_synonym SymbolTableStack = "SymbolTable list"

text \<open>
  What an object holds besides its kind: the members of the classes that the functions
  below read after a cast (\<open>IntObject::value()\<close>, \<open>StringObject::value()\<close>, the parameter
  counts of a \<open>FuncObject\<close>, \<open>TypeObject::name_\<close>, and for a \<open>DeclClassType\<close> also
  \<open>abstract_\<close> and \<open>abstract_methods_\<close> in the order the loops visit them).
\<close>

datatype Payload =
    NoPayload
  | IntValue int
  | StringValue string
  | Signature FuncObject
  | TypeName string
  | DeclClass string bool "(string \<times> AbstractMethod) list"

text \<open>
  Modelled from the spec: class \<open>Object\<close> of abstract-obj.h is not among the source
  files. Per section 3.1 an object carries a kind tag (\<open>type()\<close>), a reference to its type
  object (\<open>ObjType()\<close>) and an attribute scope (\<open>symbol_table_stack()\<close>), besides its
  payload. \<open>self\<close> is the weak back-reference \<open>self_\<close> of a \<open>DeclClassObject\<close>
  (\<open>SetSelf\<close> in obj-type.h); \<open>self_.lock()\<close> reads it.
\<close>

record Object =
  type :: ObjectType
  ObjType :: ObjectPtr
  symbol_table_stack :: SymbolTableStack
  payload :: Payload
  self :: ObjectPtr

type_synonym Store = "Object list"

text \<open>The members behind the casts; a cast to the wrong class reads a default.\<close>

fun IntObject_value :: "Object \<Rightarrow> int" where
  "IntObject_value obj = (case payload obj of IntValue v \<Rightarrow> v | _ \<Rightarrow> 0)"

fun StringObject_value :: "Object \<Rightarrow> string" where
  "StringObject_value obj = (case payload obj of StringValue v \<Rightarrow> v | _ \<Rightarrow> [])"


fun name :: "Object \<Rightarrow> string" where
  "name obj = (case payload obj of TypeName n \<Rightarrow> n | DeclClass n a ms \<Rightarrow> n | _ \<Rightarrow> [])"

fun abstract :: "Object \<Rightarrow> bool" where
  "abstract obj = (case payload obj of DeclClass n a ms \<Rightarrow> a | _ \<Rightarrow> False)"


text \<open>
  Modelled from the spec: \<open>SymbolTableStack::Exists\<close> and \<open>Lookup(name, false)\<close> of
  symbol-table.h, which is not among the source files. Per sections 3.3 and 4.2 the
  lookup walks the tables from the top to the bottom; once it has passed a \<open>FUNC_TABLE\<close>
  frame, an entry of an outer frame is seen only when it is global, or the frame is a
  \<open>CLASS_TABLE\<close>, or the frame is the root table. \<open>None\<close> is the lookup that fails
  because the name is unresolved. \<open>crossed\<close> says that a function frame has been passed.
\<close>

fun Lookup_from :: "bool \<Rightarrow> SymbolTableStack \<Rightarrow> string \<Rightarrow> SymbolAttr option" where
  "Lookup_from crossed [] n = None"
| "Lookup_from crossed (t # outer) n =
     (case map_of (entries t) n of
        Some a \<Rightarrow>
          if \<not> crossed \<or> global a \<or> table_type t = CLASS_TABLE \<or> outer = [] then Some a
          else Lookup_from (crossed \<or> table_type t = FUNC_TABLE) outer n
      | None \<Rightarrow> Lookup_from (crossed \<or> table_type t = FUNC_TABLE) outer n)"

definition Lookup :: "SymbolTableStack \<Rightarrow> string \<Rightarrow> SymbolAttr option" where
  "Lookup st n = Lookup_from False st n"

definition Exists :: "SymbolTableStack \<Rightarrow> string \<Rightarrow> bool" where
  "Exists st n = (Lookup st n \<noteq> None)"

text \<open>
  Modelled from the spec: \<open>SymbolTableStack::NewTable\<close> of symbol-table.h, which is not
  among the source files. Per section 3.3 it pushes a table; the tag of the new table
  is taken to be \<open>BLOCK_TABLE\<close>.
\<close>

definition NewTable :: "SymbolTableStack \<Rightarrow> SymbolTableStack" where
  "NewTable st = \<lparr>table_type = BLOCK_TABLE, entries = []\<rparr> # st"

text \<open>
  Modelled from the spec: \<open>Object::Copy\<close> of abstract-obj.h, which is not among the
  source files. Per sections 3.2 and 4.1 a copy is a fresh object of equal value: a new
  handle whose object has the content of the one copied, the rest of the store as it was.
\<close>

definition Copy :: "ObjectPtr \<Rightarrow> Store \<Rightarrow> ObjectPtr \<times> Store" where
  "Copy p h = (length h, h @ [h ! p])"

text \<open>The scalar kinds of section 3.2.\<close>

definition scalar :: "ObjectType \<Rightarrow> bool" where
  "scalar k = (k = INT' \<or> k = REAL \<or> k = BOOL \<or> k = STRING \<or> k = NULL)"

text \<open>
  Modelled from the spec: \<open>SymbolAttr::SharedAccess\<close> of symbol-table.h, which is not
  among the source files. Per section 4.2 it gives \<open>object.copy()\<close> for the scalar kinds
  and the same handle for every other kind.
\<close>

definition SharedAccess :: "SymbolAttr \<Rightarrow> Store \<Rightarrow> ObjectPtr \<times> Store" where
  "SharedAccess a h =
     (if scalar (type (h ! object a)) then Copy (object a) h else (object a, h))"

section \<open>Reading an identifier (expr-executor.h)\<close>

text \<open>
  Modelled from the spec: expr-executor.h only declares
  \<open>ExpressionExecutor::ExecIdentifier\<close>, under the comment that a simple object is copied
  and a container is returned as the reference held by the symbol table; its body is not
  among the source files. Per section 4.3 it is the symbol-stack lookup with the
  \<open>SharedAccess\<close> policy. The result is \<open>None\<close> when the lookup fails.
\<close>

definition ExecIdentifier :: "string \<Rightarrow> SymbolTableStack \<Rightarrow> Store \<Rightarrow> ObjectPtr option \<times> Store" where
  "ExecIdentifier n st h =
     (case Lookup st n of
        None \<Rightarrow> (None, h)
      | Some a \<Rightarrow> (let (p, h') = SharedAccess a h in (Some p, h')))"

section \<open>Type objects (obj-type.h)\<close>




text \<open>
  \<open>ContainerType::Constructor\<close>, which \<open>ArrayType\<close>, \<open>MapType\<close> and \<open>TupleType\<close> inherit
  unchanged. \<open>this\<close> is the container type, whose name goes into the message.
\<close>

definition ContainerType_Constructor ::
    "Object \<Rightarrow> ObjectPtr list \<Rightarrow> Store \<Rightarrow> (RunTimeError + ObjectPtr) \<times> Store" where
  "ContainerType_Constructor this params h =
     (if length params \<noteq> 1 then
        (Inl (RunTimeError FUNC_PARAMS ''%1%() takes exactly 1 argument'' [name this]), h)
      else (let (p, h') = Copy (params ! 0) h in (Inr p, h')))"

text \<open>
  The three container types as their constructors build them: the constructor of
  \<open>TypeObject\<close> makes an object of kind \<open>TYPE\<close> with the name given and pushes a new
  table on its scope. The handle \<open>t\<close> of the root type object and the scope are the
  constructor's arguments.
\<close>

definition ArrayType :: "ObjectPtr \<Rightarrow> SymbolTableStack \<Rightarrow> Object" where
  "ArrayType t st = \<lparr>type = TYPE', ObjType = t, symbol_table_stack = NewTable st,
                     payload = TypeName ''array'', self = 0\<rparr>"

definition MapType :: "ObjectPtr \<Rightarrow> SymbolTableStack \<Rightarrow> Object" where
  "MapType t st = \<lparr>type = TYPE', ObjType = t, symbol_table_stack = NewTable st,
                   payload = TypeName ''map'', self = 0\<rparr>"

definition TupleType :: "ObjectPtr \<Rightarrow> SymbolTableStack \<Rightarrow> Object" where
  "TupleType t st = \<lparr>type = TYPE', ObjType = t, symbol_table_stack = NewTable st,
                     payload = TypeName ''tuple'', self = 0\<rparr>"

section \<open>Declared classes and their instances (decl-class-object.cc)\<close>

text \<open>
  \<open>KWArgs\<close> maps a parameter name to an object. \<open>FuncObject::Call\<close> is not among the
  source files and runs the user's code: it is a parameter \<open>call\<close> of the functions that
  use it, which takes the function called, the arguments and the store, and gives back
  what the call returns or throws, with the store afterwards. The \<open>Executor*\<close> passed
  along is left out. \<open>lookup_error n\<close> stands for what \<open>Lookup(n, false)\<close> throws when
  \<open>n\<close> is unresolved; the spec does not say which code that error carries.
\<close>

type_synonym KWArgs = "(string \<times> ObjectPtr) list"

type_synonym CallFn =
  "ObjectPtr \<Rightarrow> ObjectPtr list \<Rightarrow> KWArgs \<Rightarrow> Store \<Rightarrow> (RunTimeError + ObjectPtr) \<times> Store"



text \<open>
  Modelled from the spec: \<open>ObjectFactory::NewDeclObject\<close> of object-factory.h, which is
  not among the source files. Per section 4.4 it allocates a \<open>DeclClassObject\<close> and sets
  its \<open>self_\<close>. The constructor of \<open>DeclClassObject\<close> (obj-type.h) makes an object of kind
  \<open>DECL_OBJ\<close> with the type and the scope given and pushes a new table on that scope.
  \<open>t\<close> is the handle of the class, which the factory finds from the name it is given.
\<close>

definition NewDeclObject :: "SymbolTableStack \<Rightarrow> ObjectPtr \<Rightarrow> Store \<Rightarrow> ObjectPtr \<times> Store" where
  "NewDeclObject st t h =
     (length h,
      h @ [\<lparr>type = DECL_OBJ, ObjType = t,
             symbol_table_stack = NewTable st, payload = NoPayload, self = length h\<rparr>])"

text \<open>
  \<open>DeclClassType::Constructor\<close>; \<open>this\<close> is the handle of the class. The message takes
  \<open>ObjectName()\<close> to be the name of the class.
\<close>

definition DeclClassType_Constructor ::
    "(string \<Rightarrow> RunTimeError) \<Rightarrow> CallFn \<Rightarrow> ObjectPtr \<Rightarrow> ObjectPtr list \<Rightarrow> KWArgs \<Rightarrow> Store
     \<Rightarrow> (RunTimeError + ObjectPtr) \<times> Store" where
  "DeclClassType_Constructor lookup_error call this params kw_params h =
     (if abstract (h ! this) then
        (Inl (RunTimeError INCOMPATIBLE_TYPE ''abstract class '%1%' can not be instantiated''
                [name (h ! this)]), h)
      else
        let st = symbol_table_stack (h ! this);
            (obj_self, h1) = NewDeclObject st this h
        in if Exists st ''__init__'' then
             (case Lookup st ''__init__'' of
                None \<Rightarrow> (Inl (lookup_error ''__init__''), h1)
              | Some a \<Rightarrow>
                  let (obj_init, h2) = SharedAccess a h1
                  in if type (h2 ! obj_init) = FUNC then
                       (case call obj_init (obj_self # params) kw_params h2 of
                          (Inl e, h3) \<Rightarrow> (Inl e, h3)
                        | (Inr r, h3) \<Rightarrow> (Inr obj_self, h3))
                     else (Inr obj_self, h2))
           else (Inr obj_self, h1))"

text \<open>
  \<open>DeclClassObject::Caller(fname, params, kw_params)\<close>; \<open>this\<close> is the handle of the
  instance. The function is looked up in the scope of the instance's type.
\<close>

definition Caller ::
    "(string \<Rightarrow> RunTimeError) \<Rightarrow> CallFn \<Rightarrow> ObjectPtr \<Rightarrow> string \<Rightarrow> ObjectPtr list \<Rightarrow> KWArgs \<Rightarrow> Store
     \<Rightarrow> (RunTimeError + ObjectPtr) \<times> Store" where
  "Caller lookup_error call this fname params kw_params h =
     (let st = symbol_table_stack (h ! ObjType (h ! this))
      in case Lookup st fname of
           None \<Rightarrow> (Inl (lookup_error fname), h)
         | Some a \<Rightarrow>
             let (func_obj, h1) = SharedAccess a h
             in if type (h1 ! func_obj) \<noteq> FUNC then
                  (Inl (RunTimeError INCOMPATIBLE_TYPE ''symbol %1% must be func'' [fname]), h1)
                else call func_obj (self (h1 ! this) # params) kw_params h1)"

text \<open>
  Modelled from the spec: the call \<open>Caller(fname, self_.lock())\<close> of the methods without
  an operand goes to a declaration of decl-class-object.h, which is not among the source
  files. Per section 9 it passes \<open>self_.lock()\<close> as the \<open>params\<close> of \<open>Caller\<close>, with no
  keyword arguments.
\<close>

definition Caller_self ::
    "(string \<Rightarrow> RunTimeError) \<Rightarrow> CallFn \<Rightarrow> ObjectPtr \<Rightarrow> string \<Rightarrow> Store
     \<Rightarrow> (RunTimeError + ObjectPtr) \<times> Store" where
  "Caller_self lookup_error call this fname h =
     Caller lookup_error call this fname [self (h ! this)] [] h"

text \<open>\<open>DeclClassObject::Print\<close>, which returns a \<open>std::string\<close>.\<close>

definition Print ::
    "(string \<Rightarrow> RunTimeError) \<Rightarrow> CallFn \<Rightarrow> ObjectPtr \<Rightarrow> Store \<Rightarrow> (RunTimeError + string) \<times> Store" where
  "Print lookup_error call this h =
     (case Caller_self lookup_error call this ''__print__'' h of
        (Inl e, h1) \<Rightarrow> (Inl e, h1)
      | (Inr obj, h1) \<Rightarrow>
          if type (h1 ! obj) \<noteq> STRING then
            (Inl (RunTimeError INCOMPATIBLE_TYPE ''print func must return string'' []), h1)
          else (Inr (StringObject_value (h1 ! obj)), h1))"

text \<open>\<open>DeclClassObject::Len\<close>, which returns a \<open>long int\<close>.\<close>

definition Len ::
    "(string \<Rightarrow> RunTimeError) \<Rightarrow> CallFn \<Rightarrow> ObjectPtr \<Rightarrow> Store \<Rightarrow> (RunTimeError + int) \<times> Store" where
  "Len lookup_error call this h =
     (case Caller_self lookup_error call this ''__len__'' h of
        (Inl e, h1) \<Rightarrow> (Inl e, h1)
      | (Inr obj, h1) \<Rightarrow>
          if type (h1 ! obj) \<noteq> INT' then
            (Inl (RunTimeError INCOMPATIBLE_TYPE ''__len__ func must return integer'' []), h1)
          else (Inr (IntObject_value (h1 ! obj)), h1))"

text \<open>
  \<open>DeclClassObject::Hash\<close>, which returns a \<open>std::size_t\<close>: the cast of the \<open>long\<close> value
  wraps modulo \<open>2 ^ 64\<close>.
\<close>

definition Hash ::
    "(string \<Rightarrow> RunTimeError) \<Rightarrow> CallFn \<Rightarrow> ObjectPtr \<Rightarrow> Store \<Rightarrow> (RunTimeError + nat) \<times> Store" where
  "Hash lookup_error call this h =
     (case Caller_self lookup_error call this ''__hash__'' h of
        (Inl e, h1) \<Rightarrow> (Inl e, h1)
      | (Inr obj, h1) \<Rightarrow>
          if type (h1 ! obj) \<noteq> INT' then
            (Inl (RunTimeError INCOMPATIBLE_TYPE ''__hash__ func must return integer'' []), h1)
          else (Inr (nat (IntObject_value (h1 ! obj) mod 2 ^ 64)), h1))"

text \<open>\<open>DeclClassObject::ObjBool\<close> and \<open>DeclClassObject::ObjString\<close>.\<close>

definition ObjBool ::
    "(string \<Rightarrow> RunTimeError) \<Rightarrow> CallFn \<Rightarrow> ObjectPtr \<Rightarrow> Store \<Rightarrow> (RunTimeError + ObjectPtr) \<times> Store" where
  "ObjBool lookup_error call this h = Caller_self lookup_error call this ''__bool__'' h"

definition ObjString ::
    "(string \<Rightarrow> RunTimeError) \<Rightarrow> CallFn \<Rightarrow> ObjectPtr \<Rightarrow> Store \<Rightarrow> (RunTimeError + ObjectPtr) \<times> Store" where
  "ObjString lookup_error call this h = Caller_self lookup_error call this ''__str__'' h"

text \<open>
  A user method that returns the object \<open>r\<close> and leaves the store alone, and an error for
  unresolved names; they stand for \<open>call\<close> and \<open>lookup_error\<close> in the examples.
\<close>

definition returns :: "ObjectPtr \<Rightarrow> CallFn" where
  "returns r f params kw_params h = (Inr r, h)"

definition unresolved :: "string \<Rightarrow> RunTimeError" where
  "unresolved n = RunTimeError SYMBOL_NOT_FOUND ''symbol %1% not found'' [n]"



section \<open>Jobs and processes (cmd-exec.cc)\<close>

text \<open>
  The fields of \<open>Process\<close> that the job bookkeeping reads and writes. \<open>pid_t\<close> and the
  wait status are C \<open>int\<close>s; \<open>completed_\<close> and \<open>stopped_\<close> are only ever set to 1 and
  tested for being non-zero, so they are booleans here.
\<close>

record Process =
  pid :: int
  completed :: bool
  stopped :: bool
  status :: "32 word"

text \<open>
  The fields of \<open>Job\<close> that the bookkeeping touches; \<open>job_status\<close> is the member
  \<open>status_\<close> of the job, which \<open>WaitForJob\<close> accumulates.
\<close>

record Job =
  process :: "Process list"
  pgid :: int
  job_status :: "32 word"

text \<open>
  \<open>WIFSTOPPED\<close> and \<open>ECHILD\<close> come from the system headers, not from the repository:
  on Linux the macro tests the low byte of the status against \<open>0x7f\<close>, and \<open>ECHILD\<close> is
  errno 10.
\<close>

definition WIFSTOPPED :: "32 word \<Rightarrow> bool" where
  "WIFSTOPPED st = (st AND 0xff = 0x7f)"

definition ECHILD :: int where
  "ECHILD = 10"

text \<open>
  The loop of \<open>Job::MarkProcessStatus\<close>: the first process whose pid matches gets the
  status and one of the two flags, and the function returns at once; \<open>None\<close> when no
  process matches.
\<close>

fun MarkProcessStatus_loop :: "int \<Rightarrow> 32 word \<Rightarrow> Process list \<Rightarrow> Process list option" where
  "MarkProcessStatus_loop p st [] = None"
| "MarkProcessStatus_loop p st (q # qs) =
     (if pid q = p then
        Some ((if WIFSTOPPED st then q\<lparr>status := st, stopped := True\<rparr>
               else q\<lparr>status := st, completed := True\<rparr>) # qs)
      else map_option ((#) q) (MarkProcessStatus_loop p st qs))"

text \<open>
  \<open>Job::MarkProcessStatus(pid, status)\<close>, with the value of \<open>errno\<close> it reads as a third
  argument. It returns 0 when a process was marked and -1 in every other case.
\<close>

definition MarkProcessStatus :: "int \<Rightarrow> 32 word \<Rightarrow> int \<Rightarrow> Job \<Rightarrow> int \<times> Job" where
  "MarkProcessStatus p st errno j =
     (if p > 0 then
        (case MarkProcessStatus_loop p st (process j) of
           Some ps \<Rightarrow> (0, j\<lparr>process := ps\<rparr>)
         | None \<Rightarrow> (-1, j))
      else if p = 0 \<or> errno = ECHILD then (-1, j)
      else (-1, j))"

text \<open>
  \<open>Job::JobIsStopped\<close>: the loop returns 0 at the first process that is neither completed
  nor stopped, and 1 when there is none.
\<close>

fun JobIsStopped_loop :: "Process list \<Rightarrow> int" where
  "JobIsStopped_loop [] = 1"
| "JobIsStopped_loop (p # ps) =
     (if \<not> completed p \<and> \<not> stopped p then 0 else JobIsStopped_loop ps)"

definition JobIsStopped :: "Job \<Rightarrow> int" where
  "JobIsStopped j = JobIsStopped_loop (process j)"

text \<open>\<open>Job::JobIsCompleted\<close>.\<close>

fun JobIsCompleted_loop :: "Process list \<Rightarrow> int" where
  "JobIsCompleted_loop [] = 1"
| "JobIsCompleted_loop (p # ps) =
     (if \<not> completed p then 0 else JobIsCompleted_loop ps)"

definition JobIsCompleted :: "Job \<Rightarrow> int" where
  "JobIsCompleted j = JobIsCompleted_loop (process j)"

text \<open>
  What one call \<open>waitpid (WAIT_ANY, &status, WUNTRACED)\<close> gives back: the pid returned,
  the content of \<open>status\<close> afterwards, and \<open>errno\<close>. The operating system is the list of
  these answers, in the order of the calls.
\<close>

record WaitResult =
  wpid :: int
  wstatus :: "32 word"
  werrno :: int

text \<open>
  \<open>Job::WaitForJob\<close>: a do-while loop, one \<open>waitpid\<close> per round. The result is the job
  afterwards with the answers not yet consumed; \<open>None\<close> when the answers run out while
  the loop still waits, that is when \<open>waitpid\<close> blocks for good.
\<close>

fun WaitForJob :: "WaitResult list \<Rightarrow> Job \<Rightarrow> (Job \<times> WaitResult list) option" where
  "WaitForJob [] j = None"
| "WaitForJob (w # ws) j =
     (let j1 = j\<lparr>job_status := job_status j OR wstatus w\<rparr>;
          (r, j2) = MarkProcessStatus (wpid w) (wstatus w) (werrno w) j1
      in if r = 0 \<and> JobIsStopped j2 = 0 \<and> JobIsCompleted j2 = 0
         then WaitForJob ws j2 else Some (j2, ws))"

text \<open>
  \<open>Job::PutJobInForeground\<close> and \<open>Job::PutJobInBackground\<close>, as far as the job is
  concerned: the terminal calls and the \<open>SIGCONT\<close> change nothing in the job's fields, so
  the first is the wait and the second is nothing.
\<close>

definition PutJobInForeground :: "int \<Rightarrow> WaitResult list \<Rightarrow> Job \<Rightarrow> (Job \<times> WaitResult list) option" where
  "PutJobInForeground cont ws j = WaitForJob ws j"

definition PutJobInBackground :: "int \<Rightarrow> WaitResult list \<Rightarrow> Job \<Rightarrow> (Job \<times> WaitResult list) option" where
  "PutJobInBackground cont ws j = Some (j, ws)"

text \<open>
  How a launch ends in the process that called it: it returns, or the shell exits
  (\<open>exit (1)\<close> after a failed \<open>pipe\<close> or \<open>fork\<close>), or this is the forked child, which goes
  into \<open>Process::LaunchProcess\<close> for the process of that index and never comes back to
  the loop (it execs, exits or throws), or a system call has no answer left.
\<close>

datatype LaunchResult = Returned Job | Exited int | InChild nat | NoAnswer

text \<open>
  The loop of \<open>Job::LaunchJob\<close>. Each round takes the answers of \<open>pipe\<close> (asked for every
  process but the last; \<open>True\<close> when it succeeded) and of \<open>fork\<close>. The file descriptors are
  left out: they do not reach the fields of the job. \<open>i\<close> is the loop index.
\<close>

fun LaunchJob_loop :: "bool \<Rightarrow> (bool \<times> int) list \<Rightarrow> nat \<Rightarrow> Job \<Rightarrow> LaunchResult" where
  "LaunchJob_loop interactive sys i j =
     (if i < length (process j) then
        (case sys of
           [] \<Rightarrow> NoAnswer
         | (pipe_ok, fork_pid) # rest \<Rightarrow>
             if i \<noteq> length (process j) - 1 \<and> \<not> pipe_ok then Exited 1
             else if fork_pid = 0 then InChild i
             else if fork_pid < 0 then Exited 1
             else
               let j1 = j\<lparr>process := (process j)[i := (process j ! i)\<lparr>pid := fork_pid\<rparr>]\<rparr>;
                   j2 = (if interactive \<and> pgid j1 = 0 then j1\<lparr>pgid := fork_pid\<rparr> else j1)
               in LaunchJob_loop interactive rest (Suc i) j2)
      else Returned j)"

text \<open>\<open>Job::LaunchJob(foreground)\<close>: the loop, then the wait that the mode asks for.\<close>

definition LaunchJob :: "bool \<Rightarrow> (bool \<times> int) list \<Rightarrow> WaitResult list \<Rightarrow> int \<Rightarrow> Job \<Rightarrow> LaunchResult" where
  "LaunchJob shell_is_interactive sys ws foreground j =
     (case LaunchJob_loop shell_is_interactive sys 0 j of
        Returned j1 \<Rightarrow>
          (case (if \<not> shell_is_interactive then WaitForJob ws j1
                 else if foreground \<noteq> 0 then PutJobInForeground 0 ws j1
                 else PutJobInBackground 0 ws j1) of
             Some (j2, rest) \<Rightarrow> Returned j2
           | None \<Rightarrow> NoAnswer)
      | r \<Rightarrow> r)"

section \<open>Properties\<close>

subsection \<open>Abstract method equality\<close>

text \<open>
  Claim C4. For every pair of signatures \<open>a\<close> and \<open>b\<close>: when \<open>a\<close> is variadic, \<open>a == b\<close>
  compares the triple (num_params, num_default_params, variadic); when \<open>a\<close> is not variadic
  it compares only (num_params, variadic), so that replacing the default-parameter count of
  either side by any other number leaves the answer as it was; and \<open>a != b\<close> is the negation
  of \<open>a == b\<close>.
\<close>

theorem AbstractMethod_equality:
  "AbstractMethod_eq a b =
     (if variadic a
      then (num_params a, num_default_params a, variadic a) =
           (num_params b, num_default_params b, variadic b)
      else (num_params a, variadic a) = (num_params b, variadic b))
   \<and> (if variadic a then True
      else AbstractMethod_eq (a\<lparr>num_default_params := k\<rparr>) (b\<lparr>num_default_params := l\<rparr>)
           = AbstractMethod_eq a b)
   \<and> AbstractMethod_ne a b = (\<not> AbstractMethod_eq a b)"
  by (auto simp: AbstractMethod_eq_def AbstractMethod_ne_def)

subsection \<open>Job status queries\<close>

lemma JobIsStopped_loop_zero:
  "JobIsStopped_loop ps = 0 \<longleftrightarrow> (\<exists>p \<in> set ps. \<not> completed p \<and> \<not> stopped p)"
  by (induction ps) auto

lemma JobIsStopped_loop_range: "JobIsStopped_loop ps = 0 \<or> JobIsStopped_loop ps = 1"
  by (induction ps) auto

lemma JobIsCompleted_loop_one:
  "JobIsCompleted_loop ps = 1 \<longleftrightarrow> (\<forall>p \<in> set ps. completed p)"
  by (induction ps) auto

text \<open>
  Claim C9. A job whose processes are all marked completed answers 1 to \<open>JobIsStopped()\<close>,
  although none of them need be stopped: \<open>JobIsStopped\<close> answers 0 only when some process
  is neither completed nor stopped, and 1 otherwise.
\<close>

theorem JobIsStopped_when_completed:
  "((\<forall>p \<in> set (process j). completed p) \<longrightarrow> JobIsStopped j = 1)
   \<and> (JobIsStopped j = 0 \<longleftrightarrow> (\<exists>p \<in> set (process j). \<not> completed p \<and> \<not> stopped p))
   \<and> (JobIsStopped j = 0 \<or> JobIsStopped j = 1)"
proof -
  have z: "JobIsStopped j = 0 \<longleftrightarrow> (\<exists>p \<in> set (process j). \<not> completed p \<and> \<not> stopped p)"
    by (simp add: JobIsStopped_def JobIsStopped_loop_zero)
  have r: "JobIsStopped j = 0 \<or> JobIsStopped j = 1"
    using JobIsStopped_loop_range [of "process j"] by (simp add: JobIsStopped_def)
  from z r show ?thesis by blast
qed

theorem JobIsStopped_when_completed_witness:
  "list_all completed [\<lparr>pid = 7, completed = True, stopped = False, status = 0\<rparr>]
   \<and> JobIsStopped \<lparr>process = [\<lparr>pid = 7, completed = True, stopped = False, status = 0\<rparr>],
                     pgid = 7, job_status = 0\<rparr> = 1"
  using JobIsStopped_when_completed
    [of "\<lparr>process = [\<lparr>pid = 7, completed = True, stopped = False, status = 0\<rparr>],
          pgid = 7, job_status = 0\<rparr>"]
  by simp

subsection \<open>Waiting for a launched job\<close>

lemma MarkProcessStatus_loop_pids:
  "MarkProcessStatus_loop p st qs = Some qs' \<Longrightarrow> map pid qs' = map pid qs"
  by (induction qs arbitrary: qs') (auto split: if_splits)

lemma MarkProcessStatus_loop_None:
  "MarkProcessStatus_loop p st qs = None \<longleftrightarrow> p \<notin> pid ` set qs"
  by (induction qs) auto

lemma MarkProcessStatus_pids:
  "MarkProcessStatus p st e j = (r, j') \<Longrightarrow> map pid (process j') = map pid (process j)"
  by (auto simp: MarkProcessStatus_def MarkProcessStatus_loop_pids split: if_splits option.splits)

lemma MarkProcessStatus_hit:
  "0 < p \<Longrightarrow> p \<in> pid ` set (process j) \<Longrightarrow> fst (MarkProcessStatus p st e j) = 0"
  using MarkProcessStatus_loop_None [of p st "process j"]
  by (auto simp: MarkProcessStatus_def split: option.splits)

lemma MarkProcessStatus_miss:
  "p \<le> 0 \<or> p \<notin> pid ` set (process j) \<Longrightarrow> MarkProcessStatus p st e j = (-1, j)"
  using MarkProcessStatus_loop_None [of p st "process j"]
  by (auto simp: MarkProcessStatus_def split: option.splits)

lemma JobIsStopped_one:
  "JobIsStopped j \<noteq> 0 \<longleftrightarrow> (\<forall>q \<in> set (process j). completed q \<or> stopped q)"
  by (auto simp: JobIsStopped_def JobIsStopped_loop_zero)

lemma JobIsCompleted_loop_range: "JobIsCompleted_loop ps = 0 \<or> JobIsCompleted_loop ps = 1"
  by (induction ps) auto

lemma JobIsCompleted_nonzero:
  "JobIsCompleted j \<noteq> 0 \<Longrightarrow> (\<forall>q \<in> set (process j). completed q)"
  using JobIsCompleted_loop_one [of "process j"] JobIsCompleted_loop_range [of "process j"]
  by (auto simp: JobIsCompleted_def)

lemma WaitForJob_all_marked:
  "WaitForJob ws j = Some (j', rest) \<Longrightarrow>
   \<forall>w \<in> set ws. 0 < wpid w \<and> wpid w \<in> pid ` set (process j) \<Longrightarrow>
   \<forall>q \<in> set (process j'). completed q \<or> stopped q"
proof (induction ws arbitrary: j)
  case Nil
  then show ?case by simp
next
  case (Cons w ws)
  let ?j1 = "j\<lparr>job_status := job_status j OR wstatus w\<rparr>"
  obtain r j2 where m: "MarkProcessStatus (wpid w) (wstatus w) (werrno w) ?j1 = (r, j2)"
    by (cases "MarkProcessStatus (wpid w) (wstatus w) (werrno w) ?j1") auto
  have pids: "map pid (process j2) = map pid (process j)"
    using MarkProcessStatus_pids [OF m] by simp
  have set_pids: "pid ` set (process j2) = pid ` set (process j)"
    using pids by (metis list.set_map)
  have r0: "r = 0"
    using MarkProcessStatus_hit [of "wpid w" ?j1 "wstatus w" "werrno w"] m Cons.prems(2) by simp
  show ?case
  proof (cases "JobIsStopped j2 = 0 \<and> JobIsCompleted j2 = 0")
    case True
    then have "WaitForJob ws j2 = Some (j', rest)"
      using Cons.prems(1) m r0 by simp
    moreover have "\<forall>w \<in> set ws. 0 < wpid w \<and> wpid w \<in> pid ` set (process j2)"
      using Cons.prems(2) set_pids by simp
    ultimately show ?thesis by (rule Cons.IH)
  next
    case False
    then have eq: "j' = j2"
      using Cons.prems(1) m r0 by (auto split: if_splits)
    from False have "JobIsStopped j2 \<noteq> 0 \<or> JobIsCompleted j2 \<noteq> 0" by blast
    then show ?thesis
      using JobIsStopped_one [of j2] JobIsCompleted_nonzero [of j2] eq by blast
  qed
qed

lemma WaitForJob_pids:
  "WaitForJob ws j = Some (j', rest) \<Longrightarrow> map pid (process j') = map pid (process j)"
proof (induction ws arbitrary: j)
  case Nil
  then show ?case by simp
next
  case (Cons w ws)
  let ?j1 = "j\<lparr>job_status := job_status j OR wstatus w\<rparr>"
  obtain r j2 where m: "MarkProcessStatus (wpid w) (wstatus w) (werrno w) ?j1 = (r, j2)"
    by (cases "MarkProcessStatus (wpid w) (wstatus w) (werrno w) ?j1") auto
  have pids: "map pid (process j2) = map pid (process j)"
    using MarkProcessStatus_pids [OF m] by simp
  show ?case
  proof (cases "r = 0 \<and> JobIsStopped j2 = 0 \<and> JobIsCompleted j2 = 0")
    case True
    then have "WaitForJob ws j2 = Some (j', rest)"
      using Cons.prems(1) m by simp
    then show ?thesis using Cons.IH pids by simp
  next
    case False
    then have "j' = j2"
      using Cons.prems(1) m by (auto split: if_splits)
    then show ?thesis using pids by simp
  qed
qed

lemma WaitForJob_stops_on_miss:
  "wpid w \<le> 0 \<or> wpid w \<notin> pid ` set (process j) \<Longrightarrow>
   WaitForJob (w # ws) j = Some (j\<lparr>job_status := job_status j OR wstatus w\<rparr>, ws)"
  using MarkProcessStatus_miss [of "wpid w" "j\<lparr>job_status := job_status j OR wstatus w\<rparr>" "wstatus w" "werrno w"]
  by simp

lemma MarkProcessStatus_loop_first:
  "p \<notin> pid ` set pre \<Longrightarrow> pid q = p \<Longrightarrow>
   MarkProcessStatus_loop p st (pre @ q # post) =
     Some (pre @ (if WIFSTOPPED st then q\<lparr>status := st, stopped := True\<rparr>
                  else q\<lparr>status := st, completed := True\<rparr>) # post)"
  by (induction pre) auto

lemma LaunchJob_waits:
  assumes "LaunchJob interactive sys ws fg j = Returned j'" and "\<not> interactive \<or> fg \<noteq> 0"
  shows "\<exists>j1 rest. WaitForJob ws j1 = Some (j', rest)"
  using assms
  by (auto simp: LaunchJob_def PutJobInForeground_def
      split: LaunchResult.splits option.splits if_splits)

text \<open>
  Claim C7, as amended. After a launch in the foreground has returned, every process of
  the job is marked completed or stopped, provided every answer of \<open>waitpid\<close> named a
  process of the job (a positive pid recorded in it). \<open>MarkProcessStatus\<close> gives the
  status to the first process with the pid, and sets \<open>stopped_\<close> when \<open>WIFSTOPPED\<close> holds
  and \<open>completed_\<close> otherwise. \<open>WaitForJob\<close> returns after the first answer that is no
  process of the job: pid 0, a negative pid (as with \<open>ECHILD\<close>), or the pid of some other
  child; the flags of the job are then as they were.
\<close>

theorem LaunchJob_foreground_marked:
  "(LaunchJob interactive sys ws fg j = Returned j' \<and> (\<not> interactive \<or> fg \<noteq> 0) \<and>
      (\<forall>w \<in> set ws. 0 < wpid w \<and> wpid w \<in> pid ` set (process j'))
      \<longrightarrow> (\<forall>q \<in> set (process j'). completed q \<or> stopped q))
   \<and> (p \<notin> pid ` set pre \<and> pid q = p \<and> 0 < p
      \<longrightarrow> MarkProcessStatus p st e (j\<lparr>process := pre @ q # post\<rparr>) =
          (0, j\<lparr>process := pre @ (if WIFSTOPPED st then q\<lparr>status := st, stopped := True\<rparr>
                                   else q\<lparr>status := st, completed := True\<rparr>) # post\<rparr>))
   \<and> (wpid w \<le> 0 \<or> wpid w \<notin> pid ` set (process j)
      \<longrightarrow> WaitForJob (w # ws) j = Some (j\<lparr>job_status := job_status j OR wstatus w\<rparr>, ws))"
proof (intro conjI impI)
  assume a: "LaunchJob interactive sys ws fg j = Returned j' \<and> (\<not> interactive \<or> fg \<noteq> 0) \<and>
      (\<forall>w \<in> set ws. 0 < wpid w \<and> wpid w \<in> pid ` set (process j'))"
  then obtain j1 rest where w: "WaitForJob ws j1 = Some (j', rest)"
    using LaunchJob_waits by blast
  have "pid ` set (process j') = pid ` set (process j1)"
    using WaitForJob_pids [OF w] by (metis list.set_map)
  then have "\<forall>w \<in> set ws. 0 < wpid w \<and> wpid w \<in> pid ` set (process j1)"
    using a by simp
  then show "\<forall>q \<in> set (process j'). completed q \<or> stopped q"
    using WaitForJob_all_marked [OF w] by blast
next
  assume "p \<notin> pid ` set pre \<and> pid q = p \<and> 0 < p"
  then show "MarkProcessStatus p st e (j\<lparr>process := pre @ q # post\<rparr>) =
          (0, j\<lparr>process := pre @ (if WIFSTOPPED st then q\<lparr>status := st, stopped := True\<rparr>
                                   else q\<lparr>status := st, completed := True\<rparr>) # post\<rparr>)"
    using MarkProcessStatus_loop_first [of p pre q st post]
    by (simp add: MarkProcessStatus_def)
next
  assume "wpid w \<le> 0 \<or> wpid w \<notin> pid ` set (process j)"
  then show "WaitForJob (w # ws) j = Some (j\<lparr>job_status := job_status j OR wstatus w\<rparr>, ws)"
    by (rule WaitForJob_stops_on_miss)
qed

text \<open>
  A pipeline of two processes, forked as 100 and 101: the first exits, the second is
  stopped by a signal (status \<open>0x137f\<close>), and the launch returns with both marked.
\<close>

theorem LaunchJob_foreground_marked_witness:
  "LaunchJob True [(True, 100), (True, 101)]
     [\<lparr>wpid = 100, wstatus = 0, werrno = 0\<rparr>, \<lparr>wpid = 101, wstatus = 0x137f, werrno = 0\<rparr>] 1
     \<lparr>process = [\<lparr>pid = 0, completed = False, stopped = False, status = 0\<rparr>,
                 \<lparr>pid = 0, completed = False, stopped = False, status = 0\<rparr>],
      pgid = 0, job_status = 0\<rparr>
   = Returned
     \<lparr>process = [\<lparr>pid = 100, completed = True, stopped = False, status = 0\<rparr>,
                 \<lparr>pid = 101, completed = False, stopped = True, status = 0x137f\<rparr>],
      pgid = 100, job_status = 0x137f\<rparr>
   \<and> list_all (\<lambda>q. completed q \<or> stopped q)
       [\<lparr>pid = 100, completed = True, stopped = False, status = 0\<rparr>,
        \<lparr>pid = 101, completed = False, stopped = True, status = 0x137f\<rparr>]"
proof -
  have run: "LaunchJob True [(True, 100), (True, 101)]
     [\<lparr>wpid = 100, wstatus = 0, werrno = 0\<rparr>, \<lparr>wpid = 101, wstatus = 0x137f, werrno = 0\<rparr>] 1
     \<lparr>process = [\<lparr>pid = 0, completed = False, stopped = False, status = 0\<rparr>,
                 \<lparr>pid = 0, completed = False, stopped = False, status = 0\<rparr>],
      pgid = 0, job_status = 0\<rparr>
   = Returned
     \<lparr>process = [\<lparr>pid = 100, completed = True, stopped = False, status = 0\<rparr>,
                 \<lparr>pid = 101, completed = False, stopped = True, status = 0x137f\<rparr>],
      pgid = 100, job_status = 0x137f\<rparr>"
    by (simp add: LaunchJob_def PutJobInForeground_def MarkProcessStatus_def WIFSTOPPED_def
        JobIsStopped_def JobIsCompleted_def)
  show ?thesis
    using run LaunchJob_foreground_marked
      [of True "[(True, 100), (True, 101)]"
          "[\<lparr>wpid = 100, wstatus = 0, werrno = 0\<rparr>, \<lparr>wpid = 101, wstatus = 0x137f, werrno = 0\<rparr>]"
          1
          "\<lparr>process = [\<lparr>pid = 0, completed = False, stopped = False, status = 0\<rparr>,
                      \<lparr>pid = 0, completed = False, stopped = False, status = 0\<rparr>],
            pgid = 0, job_status = 0\<rparr>"
          "\<lparr>process = [\<lparr>pid = 100, completed = True, stopped = False, status = 0\<rparr>,
                      \<lparr>pid = 101, completed = False, stopped = True, status = 0x137f\<rparr>],
            pgid = 100, job_status = 0x137f\<rparr>"]
    by simp
qed

text \<open>
  The claim as it is written fails. A shell with a background child 99 launches a job of
  one process in the foreground; \<open>fork\<close> gives it pid 100. The background child ends
  first, so \<open>waitpid (WAIT_ANY, ...)\<close> answers 99: no process of this job has that pid,
  \<open>MarkProcessStatus\<close> returns -1 and the wait is over, with process 100 neither
  completed nor stopped. The same happens when \<open>waitpid\<close> fails with \<open>ECHILD\<close>.
\<close>

theorem LaunchJob_foreground_unmarked:
  "LaunchJob True [(True, 100)] [\<lparr>wpid = 99, wstatus = 0, werrno = 0\<rparr>] 1
     \<lparr>process = [\<lparr>pid = 0, completed = False, stopped = False, status = 0\<rparr>],
      pgid = 0, job_status = 0\<rparr>
   = Returned \<lparr>process = [\<lparr>pid = 100, completed = False, stopped = False, status = 0\<rparr>],
               pgid = 100, job_status = 0\<rparr>
   \<and> LaunchJob True [(True, 100)] [\<lparr>wpid = - 1, wstatus = 0, werrno = ECHILD\<rparr>] 1
     \<lparr>process = [\<lparr>pid = 0, completed = False, stopped = False, status = 0\<rparr>],
      pgid = 0, job_status = 0\<rparr>
   = Returned \<lparr>process = [\<lparr>pid = 100, completed = False, stopped = False, status = 0\<rparr>],
               pgid = 100, job_status = 0\<rparr>"
  by (simp add: LaunchJob_def PutJobInForeground_def MarkProcessStatus_def)

subsection \<open>Reading an identifier\<close>

text \<open>
  Claim C1. Let the identifier \<open>n\<close> be bound, in the symbol-table stack, to the object
  with handle \<open>object a\<close>. If that object has a scalar kind (\<open>INT\<close>, \<open>REAL\<close>, \<open>BOOL\<close>,
  \<open>STRING\<close>, \<open>NULL\<close>), every read gives a fresh handle whose object has the value of the
  original: two reads give two handles distinct from each other and from the original,
  and writing through the second changes neither the first nor the original. If the
  object is of any other kind, among them the containers (\<open>ARRAY\<close>, \<open>TUPLE\<close>, \<open>MAP\<close>) and
  the declared instances (\<open>DECL_OBJ\<close>), every read gives the handle of the binding
  itself and leaves the store as it is, so that what is written through it is what the
  next read finds.
\<close>

theorem ExecIdentifier_copy_or_share:
  assumes "Lookup st n = Some a" and "object a < length h"
  shows "(scalar (type (h ! object a)) \<longrightarrow>
           (\<exists>p1 h1 p2 h2. ExecIdentifier n st h = (Some p1, h1) \<and> ExecIdentifier n st h1 = (Some p2, h2)
              \<and> p1 \<noteq> object a \<and> p2 \<noteq> object a \<and> p1 \<noteq> p2
              \<and> h1 ! p1 = h ! object a \<and> h2 ! p2 = h ! object a \<and> h2 ! p1 = h ! object a
              \<and> h2 ! object a = h ! object a
              \<and> (\<forall>v. (h2[p2 := v]) ! p1 = h2 ! p1 \<and> (h2[p2 := v]) ! object a = h ! object a)))
       \<and> (\<not> scalar (type (h ! object a)) \<longrightarrow>
           ExecIdentifier n st h = (Some (object a), h)
           \<and> (\<forall>v. \<not> scalar (type v) \<longrightarrow>
                ExecIdentifier n st (h[object a := v]) = (Some (object a), h[object a := v])
                \<and> (h[object a := v]) ! object a = v))
       \<and> scalar INT' \<and> scalar REAL \<and> scalar BOOL \<and> scalar STRING \<and> scalar NULL
       \<and> \<not> scalar ARRAY \<and> \<not> scalar TUPLE \<and> \<not> scalar MAP \<and> \<not> scalar DECL_OBJ"
  using assms
  by (auto simp: ExecIdentifier_def SharedAccess_def Copy_def nth_append scalar_def)

text \<open>The integer \<open>x\<close> is copied to the new handle 2, the array \<open>xs\<close> is handed out as it is.\<close>

theorem ExecIdentifier_copy_or_share_witness:
  "ExecIdentifier ''x'' [\<lparr>table_type = BLOCK_TABLE, entries = [(''x'', \<lparr>object = 0, global = False\<rparr>), (''xs'', \<lparr>object = 1, global = False\<rparr>)]\<rparr>]
     [\<lparr>type = INT', ObjType = 0, symbol_table_stack = [], payload = IntValue 5, self = 0\<rparr>,
      \<lparr>type = ARRAY, ObjType = 0, symbol_table_stack = [], payload = NoPayload, self = 0\<rparr>]
   = (Some 2,
     [\<lparr>type = INT', ObjType = 0, symbol_table_stack = [], payload = IntValue 5, self = 0\<rparr>,
      \<lparr>type = ARRAY, ObjType = 0, symbol_table_stack = [], payload = NoPayload, self = 0\<rparr>]
     @ [\<lparr>type = INT', ObjType = 0, symbol_table_stack = [], payload = IntValue 5, self = 0\<rparr>])
   \<and> ExecIdentifier ''xs'' [\<lparr>table_type = BLOCK_TABLE, entries = [(''x'', \<lparr>object = 0, global = False\<rparr>), (''xs'', \<lparr>object = 1, global = False\<rparr>)]\<rparr>]
     [\<lparr>type = INT', ObjType = 0, symbol_table_stack = [], payload = IntValue 5, self = 0\<rparr>,
      \<lparr>type = ARRAY, ObjType = 0, symbol_table_stack = [], payload = NoPayload, self = 0\<rparr>]
   = (Some 1,
     [\<lparr>type = INT', ObjType = 0, symbol_table_stack = [], payload = IntValue 5, self = 0\<rparr>,
      \<lparr>type = ARRAY, ObjType = 0, symbol_table_stack = [], payload = NoPayload, self = 0\<rparr>])"
  using ExecIdentifier_copy_or_share
    [of "[\<lparr>table_type = BLOCK_TABLE, entries = [(''x'', \<lparr>object = 0, global = False\<rparr>), (''xs'', \<lparr>object = 1, global = False\<rparr>)]\<rparr>]" "''x''" "\<lparr>object = 0, global = False\<rparr>"
        "[\<lparr>type = INT', ObjType = 0, symbol_table_stack = [], payload = IntValue 5, self = 0\<rparr>,
      \<lparr>type = ARRAY, ObjType = 0, symbol_table_stack = [], payload = NoPayload, self = 0\<rparr>]"]
    ExecIdentifier_copy_or_share
    [of "[\<lparr>table_type = BLOCK_TABLE, entries = [(''x'', \<lparr>object = 0, global = False\<rparr>), (''xs'', \<lparr>object = 1, global = False\<rparr>)]\<rparr>]" "''xs''" "\<lparr>object = 1, global = False\<rparr>"
        "[\<lparr>type = INT', ObjType = 0, symbol_table_stack = [], payload = IntValue 5, self = 0\<rparr>,
      \<lparr>type = ARRAY, ObjType = 0, symbol_table_stack = [], payload = NoPayload, self = 0\<rparr>]"]
  by (simp add: Lookup_def ExecIdentifier_def SharedAccess_def Copy_def scalar_def)

subsection \<open>Equality of type objects\<close>


subsection \<open>Constructors of the container types\<close>

text \<open>
  Claim C10. The constructor of a container type (array, map, tuple) throws a
  \<open>RunTimeError\<close> of code \<open>FUNC_PARAMS\<close> when the argument list has not exactly one element,
  and the store is then as before. With exactly one argument \<open>a\<close> it returns \<open>Copy\<close> of
  it: a handle that is new, whose object has the content of the argument, while the
  argument and every other object of the store are unchanged.
\<close>

theorem ContainerType_Constructor_copies:
  "(length params \<noteq> 1 \<longrightarrow>
      (\<exists>e. ContainerType_Constructor this params h = (Inl e, h) \<and> err_code e = FUNC_PARAMS))
   \<and> (a < length h \<longrightarrow>
      (\<exists>p h'. ContainerType_Constructor this [a] h = (Inr p, h') \<and> (p, h') = Copy a h
         \<and> p \<noteq> a \<and> p < length h' \<and> h' ! p = h ! a \<and> (\<forall>q < length h. h' ! q = h ! q)))"
  by (auto simp: ContainerType_Constructor_def Copy_def nth_append)

text \<open>
  \<open>array(xs)\<close> copies the array at handle 1 to the new handle 2; \<open>array()\<close> and
  \<open>tuple(xs, xs)\<close> throw.
\<close>

theorem ContainerType_Constructor_copies_witness:
  "ContainerType_Constructor (ArrayType 0 []) [1] [ArrayType 0 [], \<lparr>type = ARRAY, ObjType = 0, symbol_table_stack = [], payload = NoPayload, self = 0\<rparr>]
     = (Inr 2, [ArrayType 0 [], \<lparr>type = ARRAY, ObjType = 0, symbol_table_stack = [], payload = NoPayload, self = 0\<rparr>,
                \<lparr>type = ARRAY, ObjType = 0, symbol_table_stack = [], payload = NoPayload, self = 0\<rparr>])
   \<and> ContainerType_Constructor (ArrayType 0 []) [] [ArrayType 0 [], \<lparr>type = ARRAY, ObjType = 0, symbol_table_stack = [], payload = NoPayload, self = 0\<rparr>]
     = (Inl (RunTimeError FUNC_PARAMS ''%1%() takes exactly 1 argument'' [''array'']),
        [ArrayType 0 [], \<lparr>type = ARRAY, ObjType = 0, symbol_table_stack = [], payload = NoPayload, self = 0\<rparr>])
   \<and> ContainerType_Constructor (TupleType 0 []) [1, 1] [TupleType 0 [], \<lparr>type = ARRAY, ObjType = 0, symbol_table_stack = [], payload = NoPayload, self = 0\<rparr>]
     = (Inl (RunTimeError FUNC_PARAMS ''%1%() takes exactly 1 argument'' [''tuple'']),
        [TupleType 0 [], \<lparr>type = ARRAY, ObjType = 0, symbol_table_stack = [], payload = NoPayload, self = 0\<rparr>])"
  using ContainerType_Constructor_copies
    [of "[]" "ArrayType 0 []" "[ArrayType 0 [], \<lparr>type = ARRAY, ObjType = 0, symbol_table_stack = [], payload = NoPayload, self = 0\<rparr>]" 1]
  by (simp add: ContainerType_Constructor_def Copy_def ArrayType_def TupleType_def)

subsection \<open>Abstract methods of a declared class\<close>








subsection \<open>Constructing an instance\<close>

lemma NewDeclObject_eq:
  "NewDeclObject st t h = (p, h1) \<Longrightarrow>
   p = length h \<and> length h1 = Suc (length h) \<and> type (h1 ! p) = DECL_OBJ \<and> ObjType (h1 ! p) = t
   \<and> self (h1 ! p) = p \<and> (\<forall>q < length h. h1 ! q = h ! q)"
  by (auto simp: NewDeclObject_def nth_append)

lemma SharedAccess_func:
  "type (h ! object a) = FUNC \<Longrightarrow> SharedAccess a h = (object a, h)"
  by (simp add: SharedAccess_def scalar_def)

lemma SharedAccess_kind:
  "SharedAccess a h = (p, h') \<Longrightarrow> type (h' ! p) = type (h ! object a)"
  by (auto simp: SharedAccess_def Copy_def split: if_splits)

lemma SharedAccess_prefix:
  "SharedAccess a h = (p, h') \<Longrightarrow> take (length h) h' = h"
  by (auto simp: SharedAccess_def Copy_def split: if_splits)

text \<open>
  Claim C3. The constructor of a class whose \<open>abstract_\<close> flag is set throws a
  \<open>RunTimeError\<close> of code \<open>INCOMPATIBLE_TYPE\<close>, whatever the arguments and whatever
  \<open>__init__\<close> would do, and the store is as it was: no instance has been created.
\<close>

theorem Constructor_abstract_refuses:
  "abstract (h ! this) \<longrightarrow>
     (\<exists>e. DeclClassType_Constructor lookup_error call this params kw_params h = (Inl e, h)
        \<and> err_code e = INCOMPATIBLE_TYPE)"
  by (simp add: DeclClassType_Constructor_def)

theorem Constructor_abstract_refuses_witness:
  "DeclClassType_Constructor unresolved (returns 1) 0 [] []
     [\<lparr>type = TYPE', ObjType = 0, symbol_table_stack = [\<lparr>table_type = CLASS_TABLE, entries = [(''__init__'', \<lparr>object = 1, global = True\<rparr>)]\<rparr>], payload = DeclClass ''Shape'' True [(''f'', \<lparr>num_params = 1, num_default_params = 0, variadic = False\<rparr>)], self = 0\<rparr>,
      \<lparr>type = FUNC, ObjType = 0, symbol_table_stack = [], payload = Signature \<lparr>NumParams = 1, NumDefaultParams = 0, CVariadic = False\<rparr>, self = 0\<rparr>]
   = (Inl (RunTimeError INCOMPATIBLE_TYPE ''abstract class '%1%' can not be instantiated'' [''Shape'']),
     [\<lparr>type = TYPE', ObjType = 0, symbol_table_stack = [\<lparr>table_type = CLASS_TABLE, entries = [(''__init__'', \<lparr>object = 1, global = True\<rparr>)]\<rparr>], payload = DeclClass ''Shape'' True [(''f'', \<lparr>num_params = 1, num_default_params = 0, variadic = False\<rparr>)], self = 0\<rparr>,
      \<lparr>type = FUNC, ObjType = 0, symbol_table_stack = [], payload = Signature \<lparr>NumParams = 1, NumDefaultParams = 0, CVariadic = False\<rparr>, self = 0\<rparr>])"
  using Constructor_abstract_refuses
    [of "[\<lparr>type = TYPE', ObjType = 0, symbol_table_stack = [\<lparr>table_type = CLASS_TABLE, entries = [(''__init__'', \<lparr>object = 1, global = True\<rparr>)]\<rparr>], payload = DeclClass ''Shape'' True [(''f'', \<lparr>num_params = 1, num_default_params = 0, variadic = False\<rparr>)], self = 0\<rparr>,
      \<lparr>type = FUNC, ObjType = 0, symbol_table_stack = [], payload = Signature \<lparr>NumParams = 1, NumDefaultParams = 0, CVariadic = False\<rparr>, self = 0\<rparr>]" 0 unresolved "returns 1" "[]" "[]"]
  by (simp add: DeclClassType_Constructor_def)

text \<open>
  Claim C6, as amended. For a declared class that is not abstract, the constructor
  allocates a new \<open>DeclClassObject\<close> (a new handle, the next free one) whose type is the
  class and whose \<open>self_\<close> is its own handle. When \<open>__init__\<close> resolves in the scope of the
  class to an object of kind \<open>FUNC\<close>, the constructor calls it with the new instance put
  before the arguments, on the store that holds the instance; it throws what the call
  throws and otherwise returns the new instance. When \<open>__init__\<close> does not resolve, or
  not to a function, nothing is called: the result is the new instance whatever \<open>call\<close>
  is. Whenever the constructor returns, what it returns is the new instance.
\<close>

theorem Constructor_instance:
  assumes "\<not> abstract (h ! this)"
  shows "(\<exists>st h1. st = symbol_table_stack (h ! this) \<and> NewDeclObject st this h = (length h, h1)
          \<and> type (h1 ! length h) = DECL_OBJ \<and> ObjType (h1 ! length h) = this
          \<and> self (h1 ! length h) = length h
          \<and> (\<forall>a. Lookup st ''__init__'' = Some a \<and> type (h1 ! object a) = FUNC \<longrightarrow>
                DeclClassType_Constructor lookup_error call this params kw_params h =
                  (case call (object a) (length h # params) kw_params h1 of
                     (Inl e, h3) \<Rightarrow> (Inl e, h3)
                   | (Inr r, h3) \<Rightarrow> (Inr (length h), h3)))
          \<and> (\<not> (\<exists>a. Lookup st ''__init__'' = Some a \<and> type (h1 ! object a) = FUNC) \<longrightarrow>
                (\<exists>h2. take (length h1) h2 = h1 \<and>
                   (\<forall>call'. DeclClassType_Constructor lookup_error call' this params kw_params h =
                      (Inr (length h), h2)))))
       \<and> (\<forall>r h'. DeclClassType_Constructor lookup_error call this params kw_params h = (Inr r, h')
             \<longrightarrow> r = length h)"
proof -
  let ?st = "symbol_table_stack (h ! this)"
  obtain h1 where n: "NewDeclObject ?st this h = (length h, h1)"
    by (simp add: NewDeclObject_def)
  note props = NewDeclObject_eq [OF n]
  have called: "DeclClassType_Constructor lookup_error call this params kw_params h =
                  (case call (object a) (length h # params) kw_params h1 of
                     (Inl e, h3) \<Rightarrow> (Inl e, h3)
                   | (Inr r, h3) \<Rightarrow> (Inr (length h), h3))"
    if "Lookup ?st ''__init__'' = Some a" and "type (h1 ! object a) = FUNC" for a
    using that assms n SharedAccess_func [of h1 a]
    by (simp add: DeclClassType_Constructor_def Exists_def)
  have skipped: "\<exists>h2. take (length h1) h2 = h1 \<and>
                   (\<forall>call'. DeclClassType_Constructor lookup_error call' this params kw_params h =
                      (Inr (length h), h2))"
    if no: "\<not> (\<exists>a. Lookup ?st ''__init__'' = Some a \<and> type (h1 ! object a) = FUNC)"
  proof (cases "Lookup ?st ''__init__''")
    case None
    then have "\<forall>call'. DeclClassType_Constructor lookup_error call' this params kw_params h =
                      (Inr (length h), h1)"
      using assms n by (simp add: DeclClassType_Constructor_def Exists_def)
    then show ?thesis by (intro exI [of _ h1]) simp
  next
    case (Some a)
    obtain p h2 where s: "SharedAccess a h1 = (p, h2)"
      by (cases "SharedAccess a h1") auto
    have "type (h2 ! p) \<noteq> FUNC"
      using SharedAccess_kind [OF s] no Some by simp
    then have "\<forall>call'. DeclClassType_Constructor lookup_error call' this params kw_params h =
                      (Inr (length h), h2)"
      using assms n Some s by (simp add: DeclClassType_Constructor_def Exists_def)
    then show ?thesis
      using SharedAccess_prefix [OF s] by (intro exI [of _ h2]) simp
  qed
  have ret: "r = length h"
    if "DeclClassType_Constructor lookup_error call this params kw_params h = (Inr r, h')" for r h'
    using that assms n
    by (auto simp: DeclClassType_Constructor_def Let_def
        split: if_splits option.splits prod.splits sum.splits)
  show ?thesis
    using n props called skipped ret by blast
qed

text \<open>
  The class \<open>Point\<close> with an \<open>__init__\<close>: the instance is the new handle 2, and \<open>__init__\<close>
  is called with it.
\<close>

theorem Constructor_instance_witness:
  "DeclClassType_Constructor unresolved (returns 1) 0 [] []
     [\<lparr>type = TYPE', ObjType = 0, symbol_table_stack = [\<lparr>table_type = CLASS_TABLE, entries = [(''__init__'', \<lparr>object = 1, global = True\<rparr>)]\<rparr>], payload = DeclClass ''Point'' False [], self = 0\<rparr>,
      \<lparr>type = FUNC, ObjType = 0, symbol_table_stack = [], payload = Signature \<lparr>NumParams = 1, NumDefaultParams = 0, CVariadic = False\<rparr>, self = 0\<rparr>]
   = (Inr 2,
     [\<lparr>type = TYPE', ObjType = 0, symbol_table_stack = [\<lparr>table_type = CLASS_TABLE, entries = [(''__init__'', \<lparr>object = 1, global = True\<rparr>)]\<rparr>], payload = DeclClass ''Point'' False [], self = 0\<rparr>,
      \<lparr>type = FUNC, ObjType = 0, symbol_table_stack = [], payload = Signature \<lparr>NumParams = 1, NumDefaultParams = 0, CVariadic = False\<rparr>, self = 0\<rparr>,
      \<lparr>type = DECL_OBJ, ObjType = 0, symbol_table_stack = [\<lparr>table_type = BLOCK_TABLE, entries = []\<rparr>, \<lparr>table_type = CLASS_TABLE, entries = [(''__init__'', \<lparr>object = 1, global = True\<rparr>)]\<rparr>], payload = NoPayload, self = 2\<rparr>])"
  using Constructor_instance
    [of "[\<lparr>type = TYPE', ObjType = 0, symbol_table_stack = [\<lparr>table_type = CLASS_TABLE, entries = [(''__init__'', \<lparr>object = 1, global = True\<rparr>)]\<rparr>], payload = DeclClass ''Point'' False [], self = 0\<rparr>,
      \<lparr>type = FUNC, ObjType = 0, symbol_table_stack = [], payload = Signature \<lparr>NumParams = 1, NumDefaultParams = 0, CVariadic = False\<rparr>, self = 0\<rparr>]" 0 unresolved "returns 1" "[]" "[]"]
  by (simp add: DeclClassType_Constructor_def NewDeclObject_def NewTable_def Exists_def
      Lookup_def SharedAccess_def scalar_def returns_def)

text \<open>
  The claim as it is written fails for an abstract class, which is a declared class type
  too: the constructor of the abstract class \<open>Shape\<close>, which has an \<open>__init__\<close>, allocates
  nothing (the store keeps its two objects), calls nothing and returns no instance.
\<close>

theorem Constructor_abstract_allocates_nothing:
  "DeclClassType_Constructor unresolved (returns 1) 0 [1] []
     [\<lparr>type = TYPE', ObjType = 0, symbol_table_stack = [\<lparr>table_type = CLASS_TABLE, entries = [(''__init__'', \<lparr>object = 1, global = True\<rparr>)]\<rparr>], payload = DeclClass ''Shape'' True [(''f'', \<lparr>num_params = 1, num_default_params = 0, variadic = False\<rparr>)], self = 0\<rparr>,
      \<lparr>type = FUNC, ObjType = 0, symbol_table_stack = [], payload = Signature \<lparr>NumParams = 1, NumDefaultParams = 0, CVariadic = False\<rparr>, self = 0\<rparr>]
   = (Inl (RunTimeError INCOMPATIBLE_TYPE ''abstract class '%1%' can not be instantiated'' [''Shape'']),
     [\<lparr>type = TYPE', ObjType = 0, symbol_table_stack = [\<lparr>table_type = CLASS_TABLE, entries = [(''__init__'', \<lparr>object = 1, global = True\<rparr>)]\<rparr>], payload = DeclClass ''Shape'' True [(''f'', \<lparr>num_params = 1, num_default_params = 0, variadic = False\<rparr>)], self = 0\<rparr>,
      \<lparr>type = FUNC, ObjType = 0, symbol_table_stack = [], payload = Signature \<lparr>NumParams = 1, NumDefaultParams = 0, CVariadic = False\<rparr>, self = 0\<rparr>])"
  by (simp add: DeclClassType_Constructor_def)

subsection \<open>Kinds returned by the methods of an instance\<close>

lemma Caller_self_func:
  assumes "Lookup (symbol_table_stack (h ! ObjType (h ! this))) fname = Some a"
    and "type (h ! object a) = FUNC"
  shows "Caller_self lookup_error call this fname h =
           call (object a) [self (h ! this), self (h ! this)] [] h"
  using assms SharedAccess_func [of h a]
  by (simp add: Caller_self_def Caller_def)

text \<open>
  Claim C5, as amended. Let the method name resolve, in the scope of the instance's
  type, to a function, and let the call of that function return the object \<open>r\<close>. Then
  \<open>Print\<close> gives the string of \<open>r\<close> when \<open>r\<close> is of kind \<open>STRING\<close> and throws a
  \<open>RunTimeError\<close> of code \<open>INCOMPATIBLE_TYPE\<close> otherwise; \<open>Len\<close> and \<open>Hash\<close> give the
  integer of \<open>r\<close> when \<open>r\<close> is of kind \<open>INT\<close> and throw \<open>INCOMPATIBLE_TYPE\<close> otherwise; and
  \<open>ObjString\<close> returns \<open>r\<close> whatever its kind is.
\<close>

theorem dunder_return_kinds:
  assumes "Lookup (symbol_table_stack (h ! ObjType (h ! this))) fname = Some a"
    and "type (h ! object a) = FUNC"
    and "call (object a) [self (h ! this), self (h ! this)] [] h = (Inr r, h1)"
  shows "(fname = ''__print__'' \<longrightarrow>
            (if type (h1 ! r) = STRING
             then Print lookup_error call this h = (Inr (StringObject_value (h1 ! r)), h1)
             else \<exists>e. Print lookup_error call this h = (Inl e, h1) \<and> err_code e = INCOMPATIBLE_TYPE))
       \<and> (fname = ''__len__'' \<longrightarrow>
            (if type (h1 ! r) = INT'
             then Len lookup_error call this h = (Inr (IntObject_value (h1 ! r)), h1)
             else \<exists>e. Len lookup_error call this h = (Inl e, h1) \<and> err_code e = INCOMPATIBLE_TYPE))
       \<and> (fname = ''__hash__'' \<longrightarrow>
            (if type (h1 ! r) = INT'
             then Hash lookup_error call this h = (Inr (nat (IntObject_value (h1 ! r) mod 2 ^ 64)), h1)
             else \<exists>e. Hash lookup_error call this h = (Inl e, h1) \<and> err_code e = INCOMPATIBLE_TYPE))
       \<and> (fname = ''__str__'' \<longrightarrow> ObjString lookup_error call this h = (Inr r, h1))"
proof -
  have c: "Caller_self lookup_error call this fname h = (Inr r, h1)"
    using Caller_self_func [OF assms(1,2), of lookup_error call] assms(3) by simp
  show ?thesis
    using c by (auto simp: Print_def Len_def Hash_def ObjString_def)
qed

text \<open>A \<open>__print__\<close> that returns the integer 5: \<open>Print\<close> throws.\<close>

theorem dunder_return_kinds_witness:
  "Print unresolved (returns 3) 2
     [\<lparr>type = TYPE', ObjType = 0, symbol_table_stack = [\<lparr>table_type = CLASS_TABLE, entries = [(''__print__'', \<lparr>object = 1, global = True\<rparr>)]\<rparr>], payload = DeclClass ''C'' False [], self = 0\<rparr>,
      \<lparr>type = FUNC, ObjType = 0, symbol_table_stack = [], payload = Signature \<lparr>NumParams = 1, NumDefaultParams = 0, CVariadic = False\<rparr>, self = 0\<rparr>,
      \<lparr>type = DECL_OBJ, ObjType = 0, symbol_table_stack = [], payload = NoPayload, self = 2\<rparr>,
      \<lparr>type = INT', ObjType = 0, symbol_table_stack = [], payload = IntValue 5, self = 0\<rparr>]
   = (Inl (RunTimeError INCOMPATIBLE_TYPE ''print func must return string'' []),
     [\<lparr>type = TYPE', ObjType = 0, symbol_table_stack = [\<lparr>table_type = CLASS_TABLE, entries = [(''__print__'', \<lparr>object = 1, global = True\<rparr>)]\<rparr>], payload = DeclClass ''C'' False [], self = 0\<rparr>,
      \<lparr>type = FUNC, ObjType = 0, symbol_table_stack = [], payload = Signature \<lparr>NumParams = 1, NumDefaultParams = 0, CVariadic = False\<rparr>, self = 0\<rparr>,
      \<lparr>type = DECL_OBJ, ObjType = 0, symbol_table_stack = [], payload = NoPayload, self = 2\<rparr>,
      \<lparr>type = INT', ObjType = 0, symbol_table_stack = [], payload = IntValue 5, self = 0\<rparr>])"
  using dunder_return_kinds
    [of "[\<lparr>type = TYPE', ObjType = 0, symbol_table_stack = [\<lparr>table_type = CLASS_TABLE, entries = [(''__print__'', \<lparr>object = 1, global = True\<rparr>)]\<rparr>], payload = DeclClass ''C'' False [], self = 0\<rparr>,
      \<lparr>type = FUNC, ObjType = 0, symbol_table_stack = [], payload = Signature \<lparr>NumParams = 1, NumDefaultParams = 0, CVariadic = False\<rparr>, self = 0\<rparr>,
      \<lparr>type = DECL_OBJ, ObjType = 0, symbol_table_stack = [], payload = NoPayload, self = 2\<rparr>,
      \<lparr>type = INT', ObjType = 0, symbol_table_stack = [], payload = IntValue 5, self = 0\<rparr>]"
      2 "''__print__''" "\<lparr>object = 1, global = True\<rparr>" "returns 3" 3 _ unresolved]
  by (simp add: Lookup_def returns_def Print_def Caller_self_def Caller_def SharedAccess_def scalar_def)

text \<open>
  The claim as it is written fails for \<open>__str__\<close>: with a \<open>__str__\<close> that returns the
  integer 5, \<open>ObjString\<close> throws nothing and returns that integer.
\<close>

theorem ObjString_returns_any_kind:
  "ObjString unresolved (returns 3) 2
     [\<lparr>type = TYPE', ObjType = 0, symbol_table_stack = [\<lparr>table_type = CLASS_TABLE, entries = [(''__str__'', \<lparr>object = 1, global = True\<rparr>)]\<rparr>], payload = DeclClass ''C'' False [], self = 0\<rparr>,
      \<lparr>type = FUNC, ObjType = 0, symbol_table_stack = [], payload = Signature \<lparr>NumParams = 1, NumDefaultParams = 0, CVariadic = False\<rparr>, self = 0\<rparr>,
      \<lparr>type = DECL_OBJ, ObjType = 0, symbol_table_stack = [], payload = NoPayload, self = 2\<rparr>,
      \<lparr>type = INT', ObjType = 0, symbol_table_stack = [], payload = IntValue 5, self = 0\<rparr>]
   = (Inr 3,
     [\<lparr>type = TYPE', ObjType = 0, symbol_table_stack = [\<lparr>table_type = CLASS_TABLE, entries = [(''__str__'', \<lparr>object = 1, global = True\<rparr>)]\<rparr>], payload = DeclClass ''C'' False [], self = 0\<rparr>,
      \<lparr>type = FUNC, ObjType = 0, symbol_table_stack = [], payload = Signature \<lparr>NumParams = 1, NumDefaultParams = 0, CVariadic = False\<rparr>, self = 0\<rparr>,
      \<lparr>type = DECL_OBJ, ObjType = 0, symbol_table_stack = [], payload = NoPayload, self = 2\<rparr>,
      \<lparr>type = INT', ObjType = 0, symbol_table_stack = [], payload = IntValue 5, self = 0\<rparr>])
   \<and> type ([\<lparr>type = TYPE', ObjType = 0, symbol_table_stack = [\<lparr>table_type = CLASS_TABLE, entries = [(''__str__'', \<lparr>object = 1, global = True\<rparr>)]\<rparr>], payload = DeclClass ''C'' False [], self = 0\<rparr>,
      \<lparr>type = FUNC, ObjType = 0, symbol_table_stack = [], payload = Signature \<lparr>NumParams = 1, NumDefaultParams = 0, CVariadic = False\<rparr>, self = 0\<rparr>,
      \<lparr>type = DECL_OBJ, ObjType = 0, symbol_table_stack = [], payload = NoPayload, self = 2\<rparr>,
      \<lparr>type = INT', ObjType = 0, symbol_table_stack = [], payload = IntValue 5, self = 0\<rparr>] ! 3) = INT'"
  by (simp add: Lookup_def returns_def ObjString_def Caller_self_def Caller_def SharedAccess_def
      scalar_def)

end
